theory Spec2Isabelle
  imports Complex_Main "HOL-Library.Multiset"
begin

section \<open>Strings and numbers as the JavaScript code reads them\<close>

text \<open>
  Strings are byte lists, the UTF-8 encoding of the text. Case folding in pattern matching
  is the ASCII one. White space is what JavaScript's \<open>trim\<close>, \<open>parseInt\<close> and \<open>\s\<close> take for
  it, the characters of \<open>WhiteSpace\<close> and \<open>LineTerminator\<close>, each given by its bytes; the
  length of a string is counted in UTF-16 code units where JavaScript counts it.

  The numbers that \<open>parseInt\<close> returns, and the ones computed from them (page, limit, offset),
  are JavaScript numbers: doubles whose value is an integer, or one of \<open>NaN\<close>, \<open>Infinity\<close>
  and \<open>-Infinity\<close>. \<open>Num k\<close> is the double of value \<open>k\<close>; every operation rounds its exact
  result to the nearest double, ties to even, as IEEE 754 does, and a zero has no sign.
  Stored quantities and counts are \<open>int\<close> or \<open>nat\<close>; measured quantities (age, price,
  averages) are exact rationals.
\<close>

datatype js_number = Num int | NaN | PosInf | NegInf

definition MAX_SAFE_INTEGER :: int where
  "MAX_SAFE_INTEGER = 2 ^ 53 - 1"

fun bit_length :: "nat \<Rightarrow> nat" where
  \<comment> \<open>the number of binary digits of a natural number\<close>
  "bit_length n = (if n = 0 then 0 else Suc (bit_length (n div 2)))"

declare bit_length.simps [simp del]

definition round_double :: "nat \<Rightarrow> nat" where
  \<comment> \<open>the nearest natural number with at most 53 significant binary digits, ties to even\<close>
  "round_double m =
     (if m < 2 ^ 53 then m
      else
        (let e = bit_length m - 53;
             q = m div 2 ^ e;
             r = m mod 2 ^ e
         in if 2 ^ e < 2 * r \<or> (2 * r = 2 ^ e \<and> odd q) then (q + 1) * 2 ^ e else q * 2 ^ e))"

definition to_number :: "int \<Rightarrow> js_number" where
  \<comment> \<open>the double nearest to an integer; beyond the largest double it is an infinity\<close>
  "to_number k =
     (let m = round_double (nat \<bar>k\<bar>)
      in if 2 ^ 1024 \<le> m then (if k < 0 then NegInf else PosInf)
         else Num (if k < 0 then - int m else int m))"

definition js_minus_one :: "js_number \<Rightarrow> js_number" where
  \<comment> \<open>\<open>x - 1\<close>\<close>
  "js_minus_one x =
     (case x of Num k \<Rightarrow> to_number (k - 1) | NaN \<Rightarrow> NaN | PosInf \<Rightarrow> PosInf | NegInf \<Rightarrow> NegInf)"

definition signum :: "js_number \<Rightarrow> int" where
  "signum x = (case x of Num k \<Rightarrow> sgn k | NaN \<Rightarrow> 0 | PosInf \<Rightarrow> 1 | NegInf \<Rightarrow> - 1)"

definition js_times :: "js_number \<Rightarrow> js_number \<Rightarrow> js_number" where
  \<comment> \<open>\<open>x * y\<close>; an infinity times zero is \<open>NaN\<close>\<close>
  "js_times x y =
     (case (x, y) of
        (Num a, Num b) \<Rightarrow> to_number (a * b)
      | _ \<Rightarrow>
          if x = NaN \<or> y = NaN \<or> signum x * signum y = 0 then NaN
          else if 0 < signum x * signum y then PosInf
          else NegInf)"

definition math_ceil_div :: "nat \<Rightarrow> js_number \<Rightarrow> js_number" where
  \<comment> \<open>\<open>Math.ceil(total / limit)\<close> for a count \<open>total\<close> below \<open>2^53\<close>; a division by zero gives
      \<open>Infinity\<close>, or \<open>NaN\<close> when the count is zero too\<close>
  "math_ceil_div n limit =
     (case limit of
        Num l \<Rightarrow>
          if l = 0 then (if n = 0 then NaN else PosInf)
          else Num \<lceil>(of_nat n :: rat) / of_int l\<rceil>
      | NaN \<Rightarrow> NaN
      | PosInf \<Rightarrow> Num 0
      | NegInf \<Rightarrow> Num 0)"


subsection \<open>Digits\<close>

definition digitValue :: "char \<Rightarrow> nat option" where
  \<comment> \<open>the value of a character read as a digit in radix up to 16\<close>
  "digitValue c =
     (let n = (of_char c :: nat) in
      if 48 \<le> n \<and> n \<le> 57 then Some (n - 48)
      else if 97 \<le> n \<and> n \<le> 102 then Some (n - 87)
      else if 65 \<le> n \<and> n \<le> 70 then Some (n - 55)
      else None)"

definition isDigit :: "nat \<Rightarrow> char \<Rightarrow> bool" where
  "isDigit R c = (case digitValue c of None \<Rightarrow> False | Some d \<Rightarrow> d < R)"


definition digit_char :: "nat \<Rightarrow> char" where
  "digit_char d = ''0123456789'' ! d"

fun decimal :: "nat \<Rightarrow> string" where
  \<comment> \<open>the decimal numeral of a natural number, as a client writes it in a query string\<close>
  "decimal n =
     (if n < 10 then [digit_char n] else decimal (n div 10) @ [digit_char (n mod 10)])"


subsection \<open>Case and substrings\<close>

definition toLower :: "char \<Rightarrow> char" where
  \<comment> \<open>ASCII case folding, as a table\<close>
  "toLower c =
     (case map_of (zip ''ABCDEFGHIJKLMNOPQRSTUVWXYZ'' ''abcdefghijklmnopqrstuvwxyz'') c of
        None \<Rightarrow> c
      | Some d \<Rightarrow> d)"

definition lower :: "string \<Rightarrow> string" where
  "lower s = map toLower s"

fun starts_with :: "string \<Rightarrow> string \<Rightarrow> bool" where
  \<comment> \<open>\<open>starts_with q s\<close>: the text \<open>s\<close> begins with \<open>q\<close>\<close>
  "starts_with [] s = True"
| "starts_with (c # q) [] = False"
| "starts_with (c # q) (d # s) = (c = d \<and> starts_with q s)"

fun contains :: "string \<Rightarrow> string \<Rightarrow> bool" where
  \<comment> \<open>\<open>contains q s\<close>: \<open>q\<close> occurs in \<open>s\<close> as a contiguous substring\<close>
  "contains q [] = (q = [])"
| "contains q (d # s) = (starts_with q (d # s) \<or> contains q s)"

definition ci_contains :: "string \<Rightarrow> string \<Rightarrow> bool" where
  \<comment> \<open>case-insensitive substring match\<close>
  "ci_contains q s = contains (lower q) (lower s)"

definition toLowerCase :: "(string \<Rightarrow> string) \<Rightarrow> string \<Rightarrow> string" where
  \<comment> \<open>\<open>s.toLowerCase()\<close>. On ASCII text it folds the letters A to Z; the case mapping of
      the other Unicode characters is a table of the JavaScript engine: the parameter
      \<open>unicode\<close>.\<close>
  "toLowerCase unicode s =
     (if list_all (\<lambda>c. (of_char c :: nat) < 128) s then lower s else unicode s)"

subsection \<open>White space\<close>

definition white_space :: "string list" where
  \<comment> \<open>the UTF-8 bytes of U+0009 to U+000D, U+0020, U+00A0, U+1680, U+2000 to U+200A,
      U+2028, U+2029, U+202F, U+205F, U+3000 and U+FEFF\<close>
  "white_space =
     [[CHR 0x09], [CHR 0x0A], [CHR 0x0B], [CHR 0x0C], [CHR 0x0D], [CHR 0x20],
      [CHR 0xC2, CHR 0xA0],
      [CHR 0xE1, CHR 0x9A, CHR 0x80],
      [CHR 0xE2, CHR 0x80, CHR 0x80], [CHR 0xE2, CHR 0x80, CHR 0x81],
      [CHR 0xE2, CHR 0x80, CHR 0x82], [CHR 0xE2, CHR 0x80, CHR 0x83],
      [CHR 0xE2, CHR 0x80, CHR 0x84], [CHR 0xE2, CHR 0x80, CHR 0x85],
      [CHR 0xE2, CHR 0x80, CHR 0x86], [CHR 0xE2, CHR 0x80, CHR 0x87],
      [CHR 0xE2, CHR 0x80, CHR 0x88], [CHR 0xE2, CHR 0x80, CHR 0x89],
      [CHR 0xE2, CHR 0x80, CHR 0x8A],
      [CHR 0xE2, CHR 0x80, CHR 0xA8], [CHR 0xE2, CHR 0x80, CHR 0xA9],
      [CHR 0xE2, CHR 0x80, CHR 0xAF],
      [CHR 0xE2, CHR 0x81, CHR 0x9F],
      [CHR 0xE3, CHR 0x80, CHR 0x80],
      [CHR 0xEF, CHR 0xBB, CHR 0xBF]]"

function strip :: "string list \<Rightarrow> string \<Rightarrow> string" where
  \<comment> \<open>\<open>strip ws s\<close>: \<open>s\<close> without the leading run of members of \<open>ws\<close>\<close>
  "strip ws s =
     (case find (\<lambda>w. w \<noteq> [] \<and> starts_with w s) ws of
        None \<Rightarrow> s
      | Some w \<Rightarrow> strip ws (drop (length w) s))"
  by pat_completeness auto

termination
proof (relation "measure (\<lambda>(ws, s). length s)")
  show "wf (measure (\<lambda>(ws :: string list, s :: string). length s))" by simp
next
  fix ws :: "string list" and s w :: string
  assume "find (\<lambda>w. w \<noteq> [] \<and> starts_with w s) ws = Some w"
  then have "w \<noteq> []" and "starts_with w s" by (auto simp: find_Some_iff)
  then have "s \<noteq> []" by (cases w; cases s) auto
  with \<open>w \<noteq> []\<close> show "((ws, drop (length w) s), (ws, s)) \<in> measure (\<lambda>(ws, s). length s)"
    by simp
qed

declare strip.simps [simp del]

definition trim :: "string \<Rightarrow> string" where
  \<comment> \<open>\<open>s.trim()\<close>: white space goes from both ends\<close>
  "trim s = rev (strip (map rev white_space) (rev (strip white_space s)))"

definition has_white :: "string \<Rightarrow> bool" where
  \<comment> \<open>some character of the text is white space\<close>
  "has_white s =
     list_ex (\<lambda>i. list_ex (\<lambda>w. starts_with w (drop i s)) white_space) [0 ..< length s]"

definition utf16_length :: "string \<Rightarrow> nat" where
  \<comment> \<open>\<open>s.length\<close>: one unit for each character, two for a character of four bytes\<close>
  "utf16_length s =
     length (filter (\<lambda>c. (of_char c :: nat) < 0x80 \<or> 0xC0 \<le> (of_char c :: nat)) s) +
     length (filter (\<lambda>c. 0xF0 \<le> (of_char c :: nat)) s)"

definition characters :: "string \<Rightarrow> nat" where
  \<comment> \<open>the number of characters (code points) of a text\<close>
  "characters s =
     length (filter (\<lambda>c. (of_char c :: nat) < 0x80 \<or> 0xC0 \<le> (of_char c :: nat)) s)"

subsection \<open>parseInt\<close>


subsection \<open>Pattern matching of the two datastores\<close>

definition regex_meta :: "char \<Rightarrow> bool" where
  \<comment> \<open>the characters that are not read literally in a regular expression\<close>
  "regex_meta c = (c \<in> set [CHR 0x5C, CHR ''^'', CHR ''$'', CHR ''.'', CHR ''|'', CHR ''?'',
                               CHR ''*'', CHR ''+'', CHR ''('', CHR '')'', CHR ''['', CHR '']'',
                               CHR ''{'', CHR ''}''])"

definition regex_i ::
  "(string \<Rightarrow> 'e + (string \<Rightarrow> bool)) \<Rightarrow> string \<Rightarrow> 'e + (string \<Rightarrow> bool)" where
  \<comment> \<open>\<open>{ $regex: query, $options: 'i' }\<close>. A pattern without metacharacters matches the
      texts that contain it, ignoring case. What a pattern with metacharacters matches, or
      the error when it does not compile, is the regular expression engine's business:
      the parameter \<open>engine\<close>.\<close>
  "regex_i engine query =
     (if list_ex regex_meta query then engine query else Inr (ci_contains query))"

fun like :: "string \<Rightarrow> string \<Rightarrow> bool" where
  \<comment> \<open>SQL \<open>LIKE\<close>: \<open>%\<close> stands for any text, \<open>_\<close> for any one character, a backslash
      makes the next pattern character literal. A pattern that ends in a lone backslash
      matches nothing here; the patterns of \<open>searchProducts\<close> end in \<open>%\<close>.\<close>
  "like [] s = (s = [])"
| "like (c # pat) s =
     (if c = CHR ''%'' then
        (like pat s \<or> (case s of [] \<Rightarrow> False | _ # t \<Rightarrow> like (c # pat) t))
      else if c = CHR ''_'' then
        (case s of [] \<Rightarrow> False | _ # t \<Rightarrow> like pat t)
      else if c = CHR 0x5C then
        (case pat of
           [] \<Rightarrow> False
         | e # pat' \<Rightarrow> (case s of [] \<Rightarrow> False | d # t \<Rightarrow> d = e \<and> like pat' t))
      else
        (case s of [] \<Rightarrow> False | d # t \<Rightarrow> d = c \<and> like pat t))"

definition iLike :: "string \<Rightarrow> string \<Rightarrow> bool" where
  \<comment> \<open>\<open>Op.iLike\<close>: \<open>LIKE\<close> ignoring case\<close>
  "iLike pat s = like (lower pat) (lower s)"


subsection \<open>Query strings\<close>

text \<open>
  The query string of a request as Express hands it to a controller: a parameter is absent,
  a string, an array (\<open>?status=a&status=b\<close>) or an object (\<open>?status[$ne]=a\<close>).
\<close>

datatype qvalue = QString string | QArray "qvalue list" | QObject "(string \<times> qvalue) list"





definition truthy :: "qvalue option \<Rightarrow> qvalue option" where
  \<comment> \<open>\<open>if (v) ...\<close>: the empty string counts as absent; arrays and objects are truthy\<close>
  "truthy v = (case v of None \<Rightarrow> None | Some x \<Rightarrow> if x = QString [] then None else Some x)"

section \<open>Data model\<close>

datatype user_status = Active | Inactive | Pending

fun user_status_label :: "user_status \<Rightarrow> string" where
  "user_status_label Active = ''active''"
| "user_status_label Inactive = ''inactive''"
| "user_status_label Pending = ''pending''"

record user =
  u_id :: string
  u_name :: string
  u_email :: string
  u_age :: "rat option"
  u_status :: user_status
  u_metadata :: string
  u_createdAt :: nat
  u_updatedAt :: nat

datatype product_status = Available | Out_of_stock | Discontinued

fun product_status_label :: "product_status \<Rightarrow> string" where
  "product_status_label Available = ''available''"
| "product_status_label Out_of_stock = ''out_of_stock''"
| "product_status_label Discontinued = ''discontinued''"

record product =
  p_id :: string
  p_name :: string
  p_description :: "string option"
  p_price :: rat
  p_quantity :: int
  p_category :: "string option"
  p_status :: product_status
  p_createdAt :: nat
  p_updatedAt :: nat

record pagination =
  pn_total :: nat
  pn_page :: js_number
  pn_limit :: js_number
  pn_pages :: js_number

section \<open>Errors and responses\<close>

record error_item =
  item_path :: "string option"
  item_message :: string

record js_error =
  err_name :: string
  err_message :: string
  err_statusCode :: "nat option"
  err_code :: "int option"
  err_keyPattern :: "string list option"
  err_errors :: "error_item list option"
  err_stack :: "string option"

datatype js_exception = TypeError

record user_stats =
  us_id :: user_status
  us_count :: nat
  us_avgAge :: "rat option"

record product_stats =
  ps_category :: "string option"
  ps_count :: nat
  ps_avgPrice :: rat
  ps_totalQuantity :: int

datatype payload =
    Users "user list"
  | OneUser user
  | Products "product list"
  | OneProduct product
  | UserStats "user_stats list"
  | ProductStats "product_stats list"

record response =
  res_status :: nat
  res_success :: bool
  res_data :: "payload option"
  res_message :: "string option"
  res_error :: "string option"
  res_errors :: "string list option"
  res_field :: "string option"
  res_stack :: "string option"
  res_pagination :: "pagination option"
  res_totalPages :: "js_number option"
  res_count :: "nat option"

definition reply :: "nat \<Rightarrow> bool \<Rightarrow> response" where
  \<comment> \<open>\<open>res.status(st).json({ success: ok })\<close>, every other key absent\<close>
  "reply st ok =
     \<lparr>res_status = st, res_success = ok, res_data = None, res_message = None,
      res_error = None, res_errors = None, res_field = None, res_stack = None,
      res_pagination = None, res_totalPages = None, res_count = None\<rparr>"

subsection \<open>Environment configuration\<close>

definition validateNodeEnv :: "string \<Rightarrow> bool" where
  "validateNodeEnv env = (env \<in> set [''development'', ''production'', ''test''])"

definition NODE_ENV :: "string option \<Rightarrow> string" where
  \<comment> \<open>\<open>process.env.NODE_ENV || 'development'\<close>, then validated\<close>
  "NODE_ENV env =
     (let nodeEnv = (case env of None \<Rightarrow> ''development''
                     | Some s \<Rightarrow> if s = [] then ''development'' else s)
      in if validateNodeEnv nodeEnv then nodeEnv else ''development'')"

definition isProduction :: "string option \<Rightarrow> bool" where
  "isProduction env = (NODE_ENV env = ''production'')"

definition isDevelopment :: "string option \<Rightarrow> bool" where
  "isDevelopment env = (NODE_ENV env = ''development'')"

subsection \<open>The error handler middleware\<close>

definition errorHandler :: "string option \<Rightarrow> js_error \<Rightarrow> js_exception + response" where
  "errorHandler env err =
     (if err_name err = ''ValidationError'' then
        (case err_errors err of
           None \<Rightarrow> Inl TypeError
         | Some es \<Rightarrow>
             Inr ((reply 400 False)
                    \<lparr>res_message := Some ''Validation Error'',
                     res_errors := Some (map item_message es)\<rparr>))
      else if err_name err = ''CastError'' then
        Inr ((reply 400 False)\<lparr>res_message := Some ''Invalid ID format''\<rparr>)
      else if err_code err = Some 11000 then
        (let field = (case err_keyPattern err of
                        None \<Rightarrow> ''field''
                      | Some ks \<Rightarrow> (case ks of [] \<Rightarrow> ''undefined'' | k # _ \<Rightarrow> k))
         in Inr ((reply 400 False)\<lparr>res_message := Some (field @ '' already exists'')\<rparr>))
      else if err_name err = ''SequelizeValidationError'' then
        (case err_errors err of
           None \<Rightarrow> Inl TypeError
         | Some es \<Rightarrow>
             Inr ((reply 400 False)
                    \<lparr>res_message := Some ''Validation Error'',
                     res_errors := Some (map item_message es)\<rparr>))
      else if err_name err = ''SequelizeUniqueConstraintError'' then
        (case err_errors err of
           None \<Rightarrow> Inl TypeError
         | Some es \<Rightarrow>
             Inr ((reply 400 False)
                    \<lparr>res_message := Some ''Duplicate entry'',
                     res_field := (case es of [] \<Rightarrow> None | e # _ \<Rightarrow> item_path e)\<rparr>))
      else if err_name err = ''JsonWebTokenError'' then
        Inr ((reply 401 False)\<lparr>res_message := Some ''Invalid token''\<rparr>)
      else if err_name err = ''TokenExpiredError'' then
        Inr ((reply 401 False)\<lparr>res_message := Some ''Token expired''\<rparr>)
      else
        (let statusCode = (case err_statusCode err of
                             None \<Rightarrow> 500
                           | Some c \<Rightarrow> if c = 0 then 500 else c);
             message = (if err_message err = [] then ''Internal Server Error''
                        else err_message err)
         in Inr ((reply statusCode False)
                   \<lparr>res_message := Some message,
                    res_stack := (if isDevelopment env then err_stack err else None)\<rparr>)))"

definition unclassified :: "js_error \<Rightarrow> bool" where
  \<comment> \<open>an error that none of the typed branches of the handler takes\<close>
  "unclassified err =
     (err_name err \<notin> set [''ValidationError'', ''CastError'', ''SequelizeValidationError'',
                            ''SequelizeUniqueConstraintError'', ''JsonWebTokenError'',
                            ''TokenExpiredError'']
      \<and> err_code err \<noteq> Some 11000)"

subsection \<open>The health endpoint\<close>

record world =
  w_users :: "user list"
  w_products :: "product list"
  w_mongo_connected :: bool
  w_pg_connected :: bool
  w_now :: nat
  w_uptime :: rat

record health_body =
  h_status :: string
  h_timestamp :: nat
  h_uptime :: rat

definition health :: "world \<Rightarrow> nat \<times> health_body" where
  \<comment> \<open>\<open>app.get('/health', ...)\<close>: reads the clock and the process uptime, nothing else;
      the timestamp is kept as the instant that \<open>toISOString\<close> renders\<close>
  "health w = (200, \<lparr>h_status = ''healthy'', h_timestamp = w_now w, h_uptime = w_uptime w\<rparr>)"

section \<open>The datastores\<close>

text \<open>
  A collection or table is the list of its records in storage order. Every operation takes
  the list and, when it writes, returns the new one. The calls into Mongoose and Sequelize
  are modelled by what they do to that list: the validators, setters and column types are
  the ones that the models of the repository declare, the id casts and the refusals of
  PostgreSQL are the ones that these types bring with them. Connection failures are outside
  the model.
\<close>

definition newest_first :: "('a \<Rightarrow> nat) \<Rightarrow> 'a list \<Rightarrow> 'a list" where
  \<comment> \<open>\<open>sort({ createdAt: -1 })\<close>, \<open>order: [['createdAt', 'DESC']]\<close>\<close>
  "newest_first createdAt xs = sort_key (\<lambda>x. - int (createdAt x)) xs"

definition skip_limit ::
  "(js_number \<Rightarrow> js_number \<Rightarrow> 'a list \<Rightarrow> js_error + 'a list) \<Rightarrow> js_number \<Rightarrow> js_number \<Rightarrow> 'a list
     \<Rightarrow> js_error + 'a list" where
  \<comment> \<open>\<open>.skip(skip).limit(limit)\<close>, \<open>LIMIT limit OFFSET offset\<close>, for an offset from zero and a
      limit from one that JavaScript holds exactly. What the datastore does with anything
      else is the parameter \<open>window\<close>.\<close>
  "skip_limit window skip limit xs =
     (case (skip, limit) of
        (Num s, Num l) \<Rightarrow>
          if 0 \<le> s \<and> s \<le> MAX_SAFE_INTEGER \<and> 1 \<le> l \<and> l \<le> MAX_SAFE_INTEGER
          then Inr (take (nat l) (drop (nat s) xs))
          else window skip limit xs
      | _ \<Rightarrow> window skip limit xs)"

fun avg :: "rat list \<Rightarrow> rat option" where
  \<comment> \<open>the average of the values that are there; none when there is no value\<close>
  "avg [] = None"
| "avg (x # xs) = Some (sum_list (x # xs) / of_nat (length (x # xs)))"

fun the_values :: "'a option list \<Rightarrow> 'a list" where
  \<comment> \<open>the values of a column that are not null\<close>
  "the_values [] = []"
| "the_values (None # xs) = the_values xs"
| "the_values (Some x # xs) = x # the_values xs"

fun replace_first :: "('a \<Rightarrow> bool) \<Rightarrow> 'a \<Rightarrow> 'a list \<Rightarrow> 'a list" where
  "replace_first P y [] = []"
| "replace_first P y (x # xs) = (if P x then y # xs else x # replace_first P y xs)"

fun delete_first :: "('a \<Rightarrow> bool) \<Rightarrow> 'a list \<Rightarrow> 'a list" where
  "delete_first P [] = []"
| "delete_first P (x # xs) = (if P x then xs else x # delete_first P xs)"

definition insert_at :: "nat \<Rightarrow> 'a \<Rightarrow> 'a list \<Rightarrow> 'a list" where
  "insert_at k x xs = take k xs @ x # drop k xs"

subsection \<open>Requests to update a record\<close>

datatype user_field = Name string | Email string | Age rat | Status user_status | Metadata string

fun field_key :: "user_field \<Rightarrow> string" where
  "field_key (Name n) = ''name''"
| "field_key (Email e) = ''email''"
| "field_key (Age a) = ''age''"
| "field_key (Status s) = ''status''"
| "field_key (Metadata m) = ''metadata''"

record user_update =
  uu_name :: "string option"
  uu_email :: "string option"
  uu_age :: "rat option"
  uu_status :: "user_status option"
  uu_metadata :: "string option"

fun put_field :: "user_field \<Rightarrow> user_update \<Rightarrow> user_update" where
  "put_field (Name n) r = r\<lparr>uu_name := Some n\<rparr>"
| "put_field (Email e) r = r\<lparr>uu_email := Some e\<rparr>"
| "put_field (Age a) r = r\<lparr>uu_age := Some a\<rparr>"
| "put_field (Status s) r = r\<lparr>uu_status := Some s\<rparr>"
| "put_field (Metadata m) r = r\<lparr>uu_metadata := Some m\<rparr>"

definition values_of :: "user_field list \<Rightarrow> user_update" where
  \<comment> \<open>the body of an update request is a JSON object: its fields in the order in which they
      were written; \<open>values_of\<close> is the value of each key, absent keys being \<open>None\<close>\<close>
  "values_of d =
     fold put_field d
       \<lparr>uu_name = None, uu_email = None, uu_age = None, uu_status = None, uu_metadata = None\<rparr>"

record product_update =
  pu_name :: "string option"
  pu_description :: "string option"
  pu_price :: "rat option"
  pu_quantity :: "int option"
  pu_category :: "string option"
  pu_status :: "product_status option"

subsection \<open>What the code leaves to the libraries and the servers\<close>

datatype fault =
    Invalid_uuid string
  | Invalid_enum string
  | Bigint_out_of_range js_number js_number
  | Value_out_of_range product_update

record drivers =
  unicode_lower :: "string \<Rightarrow> string"
  cast12 :: "string \<Rightarrow> nat list option"
  mongo_window :: "js_number \<Rightarrow> js_number \<Rightarrow> user list \<Rightarrow> js_error + user list"
  mongo_operator :: "qvalue \<Rightarrow> js_error + (user \<Rightarrow> bool)"
  pg_window :: "js_number \<Rightarrow> js_number \<Rightarrow> product list \<Rightarrow> js_error + product list"
  pg_operator :: "qvalue option \<Rightarrow> qvalue option \<Rightarrow> js_error + (product \<Rightarrow> bool)"
  pg_says :: "fault \<Rightarrow> string \<times> string option"
  pg_slot :: "product \<Rightarrow> product list \<Rightarrow> nat"
  pg_other :: "product \<Rightarrow> product_update \<Rightarrow> product list
                 \<Rightarrow> (js_error + product option) \<times> product list"

text \<open>
  The fields of \<open>drivers\<close> stand for behaviour that the source of the repository does not
  fix; every operation below takes them as a parameter and every theorem holds for all of
  them.

  \<^item> \<open>unicode_lower\<close>: the lower case of a text that is not ASCII;
  \<^item> \<open>cast12\<close>: the ObjectId, if any, that the driver makes of a string of length 12 (older
    drivers read it as twelve bytes, newer ones refuse it);
  \<^item> \<open>mongo_window\<close>, \<open>pg_window\<close>: the answer to a negative offset, a limit below one, or
    an offset or limit that is not a number that JavaScript holds exactly;
  \<^item> \<open>mongo_operator\<close>, \<open>pg_operator\<close>: the reading of a filter value that is an array or an
    object (for PostgreSQL also of a text with a NUL character);
  \<^item> \<open>pg_says\<close>: the message and the stack of the error that Sequelize raises when
    PostgreSQL refuses a statement;
  \<^item> \<open>pg_slot\<close>: the place in the table where PostgreSQL puts the new version of an updated
    row;
  \<^item> \<open>pg_other\<close>: the outcome of an update with a text that the column does not take as it
    is (a NUL character, a category of more than 100 characters).
\<close>

definition DatabaseError :: "string \<times> string option \<Rightarrow> js_error" where
  \<comment> \<open>Sequelize's wrapper of an error of the database: it has a name, a message and a
      stack, no \<open>statusCode\<close> and no \<open>code\<close>\<close>
  "DatabaseError said =
     \<lparr>err_name = ''SequelizeDatabaseError'', err_message = fst said, err_statusCode = None,
      err_code = None, err_keyPattern = None, err_errors = None, err_stack = snd said\<rparr>"

subsection \<open>MongoService\<close>

definition hex24 :: "string \<Rightarrow> nat list option" where
  \<comment> \<open>the value of the text of an ObjectId: 24 hexadecimal digits, in either case\<close>
  "hex24 s =
     (if length s = 24 \<and> list_all (isDigit 16) s
      then Some (map (\<lambda>c. case digitValue c of None \<Rightarrow> 0 | Some d \<Rightarrow> d) s)
      else None)"

definition castObjectId :: "drivers \<Rightarrow> string \<Rightarrow> nat list option" where
  \<comment> \<open>mongoose casts the id of a request to an ObjectId before it queries\<close>
  "castObjectId ds s =
     (case hex24 s of
        Some v \<Rightarrow> Some v
      | None \<Rightarrow> if utf16_length s = 12 then cast12 ds s else None)"

definition CastError :: js_error where
  "CastError =
     \<lparr>err_name = ''CastError'', err_message = ''Cast to ObjectId failed'',
      err_statusCode = None, err_code = None, err_keyPattern = None, err_errors = None,
      err_stack = None\<rparr>"

definition ValidationError :: "error_item list \<Rightarrow> js_error" where
  "ValidationError items =
     \<lparr>err_name = ''ValidationError'', err_message = ''Validation failed'',
      err_statusCode = None, err_code = None, err_keyPattern = None,
      err_errors = Some items, err_stack = None\<rparr>"

definition DuplicateKeyError :: "string \<Rightarrow> js_error" where
  "DuplicateKeyError key =
     \<lparr>err_name = ''MongoServerError'', err_message = ''E11000 duplicate key error'',
      err_statusCode = None, err_code = Some 11000, err_keyPattern = Some [key],
      err_errors = None, err_stack = None\<rparr>"

fun status_filter ::
  "(qvalue \<Rightarrow> js_error + (user \<Rightarrow> bool)) \<Rightarrow> qvalue \<Rightarrow> js_error + (user \<Rightarrow> bool)" where
  \<comment> \<open>the filter \<open>{ status: v }\<close>: a string is compared for equality, the object
      \<open>{ $ne: s }\<close> for inequality; other objects and arrays are the parameter's\<close>
  "status_filter operator (QString s) = Inr (\<lambda>u. user_status_label (u_status u) = s)"
| "status_filter operator (QObject [(k, QString s)]) =
     (if k = ''$ne'' then Inr (\<lambda>u. user_status_label (u_status u) \<noteq> s)
      else operator (QObject [(k, QString s)]))"
| "status_filter operator v = operator v"

definition user_matches :: "drivers \<Rightarrow> qvalue option \<Rightarrow> js_error + (user \<Rightarrow> bool)" where
  \<comment> \<open>the filter \<open>{}\<close> or \<open>{ status: v }\<close>\<close>
  "user_matches ds flt =
     (case flt of None \<Rightarrow> Inr (\<lambda>u. True) | Some v \<Rightarrow> status_filter (mongo_operator ds) v)"

definition getAllUsers ::
  "drivers \<Rightarrow> js_number \<Rightarrow> js_number \<Rightarrow> qvalue option \<Rightarrow> user list
     \<Rightarrow> js_error + (user list \<times> pagination)" where
  "getAllUsers ds page limit flt db =
     (let skip = js_times (js_minus_one page) limit in
      case user_matches ds flt of
        Inl e \<Rightarrow> Inl e
      | Inr m \<Rightarrow>
          (case skip_limit (mongo_window ds) skip limit
                  (newest_first u_createdAt (filter m db)) of
             Inl e \<Rightarrow> Inl e
           | Inr users \<Rightarrow>
               Inr (users, \<lparr>pn_total = length (filter m db), pn_page = page, pn_limit = limit,
                            pn_pages = math_ceil_div (length (filter m db)) limit\<rparr>)))"

definition email_ok :: "string \<Rightarrow> bool" where
  \<comment> \<open>the pattern \<open>/^\S+@\S+\.\S+$/\<close>: no white space, an \<open>@\<close> after at least one character,
      then a dot with at least one character on either side\<close>
  "email_ok s =
     (\<not> has_white s \<and>
      list_ex (\<lambda>i. s ! i = CHR ''@'' \<and> list_ex (\<lambda>j. s ! j = CHR ''.'') [i + 2 ..< length s - 1])
        [1 ..< length s])"

fun validate_field :: "drivers \<Rightarrow> user_field \<Rightarrow> error_item list" where
  \<comment> \<open>the schema's validators on one path of an update, after the schema's setters
      (\<open>trim\<close>, \<open>lowercase\<close>): the first validator that fails gives the error of the path\<close>
  "validate_field ds (Name n) =
     (if trim n = [] then
        [\<lparr>item_path = Some ''name'', item_message = ''Name is required''\<rparr>]
      else if 100 < utf16_length (trim n) then
        [\<lparr>item_path = Some ''name'', item_message = ''Name cannot exceed 100 characters''\<rparr>]
      else [])"
| "validate_field ds (Email e) =
     (if toLowerCase (unicode_lower ds) (trim e) = [] then
        [\<lparr>item_path = Some ''email'', item_message = ''Email is required''\<rparr>]
      else if \<not> email_ok (toLowerCase (unicode_lower ds) (trim e)) then
        [\<lparr>item_path = Some ''email'', item_message = ''Please enter a valid email address''\<rparr>]
      else [])"
| "validate_field ds (Age a) =
     (if a < 0 then [\<lparr>item_path = Some ''age'', item_message = ''Age cannot be negative''\<rparr>]
      else if 150 < a then
        [\<lparr>item_path = Some ''age'', item_message = ''Age seems unrealistic''\<rparr>]
      else [])"
| "validate_field ds (Status s) = []"
| "validate_field ds (Metadata m) = []"

definition validate_user_update :: "drivers \<Rightarrow> user_field list \<Rightarrow> error_item list" where
  \<comment> \<open>\<open>runValidators: true\<close>: the paths are validated, and their errors reported, in the
      order of the keys of the body\<close>
  "validate_user_update ds d = concat (map (validate_field ds) d)"

definition set_user :: "drivers \<Rightarrow> nat \<Rightarrow> user_field list \<Rightarrow> user \<Rightarrow> user" where
  \<comment> \<open>\<open>{ $set: updateData }\<close> with \<open>timestamps: true\<close>\<close>
  "set_user ds now d u =
     u\<lparr>u_name := (case uu_name (values_of d) of None \<Rightarrow> u_name u | Some n \<Rightarrow> trim n),
       u_email := (case uu_email (values_of d) of
                     None \<Rightarrow> u_email u
                   | Some e \<Rightarrow> toLowerCase (unicode_lower ds) (trim e)),
       u_age := (case uu_age (values_of d) of None \<Rightarrow> u_age u | Some a \<Rightarrow> Some a),
       u_status := (case uu_status (values_of d) of None \<Rightarrow> u_status u | Some s \<Rightarrow> s),
       u_metadata := (case uu_metadata (values_of d) of None \<Rightarrow> u_metadata u | Some m \<Rightarrow> m),
       u_updatedAt := now\<rparr>"

definition updateUser ::
  "drivers \<Rightarrow> nat \<Rightarrow> string \<Rightarrow> user_field list \<Rightarrow> user list
     \<Rightarrow> (js_error + user option) \<times> user list" where
  \<comment> \<open>\<open>findByIdAndUpdate(id, { $set: updateData }, { new: true, runValidators: true })\<close>:
      the id is cast, the update validated, and then the document looked up\<close>
  "updateUser ds now uid d db =
     (case castObjectId ds uid of
        None \<Rightarrow> (Inl CastError, db)
      | Some v \<Rightarrow>
          if validate_user_update ds d \<noteq> [] then
            (Inl (ValidationError (validate_user_update ds d)), db)
          else
            (case find (\<lambda>u. hex24 (u_id u) = Some v) db of
               None \<Rightarrow> (Inr None, db)
             | Some u \<Rightarrow>
                 (let u' = set_user ds now d u in
                  if uu_email (values_of d) \<noteq> None \<and>
                     list_ex (\<lambda>w. hex24 (u_id w) \<noteq> Some v \<and> u_email w = u_email u') db then
                    (Inl (DuplicateKeyError ''email''), db)
                  else (Inr (Some u'), replace_first (\<lambda>w. hex24 (u_id w) = Some v) u' db))))"

definition deleteUser ::
  "drivers \<Rightarrow> string \<Rightarrow> user list \<Rightarrow> (js_error + user option) \<times> user list" where
  \<comment> \<open>\<open>findByIdAndDelete(id)\<close>\<close>
  "deleteUser ds uid db =
     (case castObjectId ds uid of
        None \<Rightarrow> (Inl CastError, db)
      | Some v \<Rightarrow>
          (case find (\<lambda>u. hex24 (u_id u) = Some v) db of
             None \<Rightarrow> (Inr None, db)
           | Some u \<Rightarrow> (Inr (Some u), delete_first (\<lambda>w. hex24 (u_id w) = Some v) db)))"

definition searchUsers ::
  "(string \<Rightarrow> js_error + (string \<Rightarrow> bool)) \<Rightarrow> string \<Rightarrow> user list \<Rightarrow> js_error + user list" where
  "searchUsers engine query db =
     (case regex_i engine query of
        Inl e \<Rightarrow> Inl e
      | Inr m \<Rightarrow> Inr (take 50 (filter (\<lambda>u. m (u_name u) \<or> m (u_email u)) db)))"

definition getUserStats :: "user list \<Rightarrow> user_stats list" where
  \<comment> \<open>\<open>$group\<close> by \<open>$status\<close> with \<open>count: { $sum: 1 }\<close> and \<open>avgAge: { $avg: '$age' }\<close>;
      the datastore fixes no order of the groups\<close>
  "getUserStats db =
     map (\<lambda>s. \<lparr>us_id = s,
               us_count = length (filter (\<lambda>u. u_status u = s) db),
               us_avgAge = avg (the_values (map u_age (filter (\<lambda>u. u_status u = s) db)))\<rparr>)
       (remdups (map u_status db))"

subsection \<open>PostgresService\<close>

fun uuid_bytes :: "nat \<Rightarrow> string \<Rightarrow> (nat list \<times> string) option" where
  \<comment> \<open>the last \<open>n\<close> of the 16 bytes of a uuid: two hexadecimal digits each, and a hyphen
      that may follow a byte of odd index \<open>i\<close> other than the last\<close>
  "uuid_bytes 0 src = Some ([], src)"
| "uuid_bytes (Suc n) src =
     (let i = 15 - n in
      case src of
        a # b # rest \<Rightarrow>
          (case (digitValue a, digitValue b) of
             (Some x, Some y) \<Rightarrow>
               (case uuid_bytes n
                       (case rest of
                          [] \<Rightarrow> rest
                        | c # t \<Rightarrow> if c = CHR ''-'' \<and> odd i \<and> i < 15 then t else rest) of
                  None \<Rightarrow> None
                | Some (bytes, rest') \<Rightarrow> Some ((16 * x + y) # bytes, rest'))
           | _ \<Rightarrow> None)
      | _ \<Rightarrow> None)"

declare uuid_bytes.simps [simp del]

definition uuid :: "string \<Rightarrow> nat list option" where
  \<comment> \<open>the value that the \<open>UUID\<close> column type of PostgreSQL reads from a text: 32 hexadecimal
      digits in either case, with optional hyphens after every fourth digit and optional
      braces around the whole; every other text is refused\<close>
  "uuid s =
     (let braces = (case s of [] \<Rightarrow> False | c # _ \<Rightarrow> c = CHR ''{'');
          src = (if braces then tl s else s)
      in case uuid_bytes 16 src of
           None \<Rightarrow> None
         | Some (bytes, rest) \<Rightarrow>
             if (if braces then rest = ''}'' else rest = []) then Some bytes else None)"

record product_filter =
  pf_category :: "qvalue option"
  pf_status :: "qvalue option"
  pf_minPrice :: "rat option"
  pf_maxPrice :: "rat option"

definition sql_text :: "qvalue option \<Rightarrow> bool" where
  \<comment> \<open>no value, or a text that goes into the statement as it is\<close>
  "sql_text v =
     (case v of
        None \<Rightarrow> True
      | Some x \<Rightarrow> (case x of QString s \<Rightarrow> CHR 0x00 \<notin> set s | _ \<Rightarrow> False))"

definition the_text :: "qvalue option \<Rightarrow> string option" where
  "the_text v =
     (case v of None \<Rightarrow> None | Some x \<Rightarrow> (case x of QString s \<Rightarrow> Some s | _ \<Rightarrow> None))"

definition product_where :: "drivers \<Rightarrow> product_filter \<Rightarrow> js_error + (product \<Rightarrow> bool)" where
  \<comment> \<open>the \<open>where\<close> object that \<open>getAllProducts\<close> builds: \<open>category\<close> and \<open>status\<close> only, each
      when it is truthy. The column \<open>status\<close> is an \<open>ENUM\<close>: PostgreSQL refuses the statement
      when the text is not one of its labels.\<close>
  "product_where ds flt =
     (let category = truthy (pf_category flt);
          status = truthy (pf_status flt)
      in if sql_text category \<and> sql_text status then
           (case the_text status of
              None \<Rightarrow>
                Inr (\<lambda>p. case the_text category of None \<Rightarrow> True | Some c \<Rightarrow> p_category p = Some c)
            | Some s \<Rightarrow>
                if s \<notin> set [''available'', ''out_of_stock'', ''discontinued'']
                then Inl (DatabaseError (pg_says ds (Invalid_enum s)))
                else
                  Inr (\<lambda>p. (case the_text category of
                               None \<Rightarrow> True
                             | Some c \<Rightarrow> p_category p = Some c) \<and>
                            product_status_label (p_status p) = s))
         else pg_operator ds category status)"

definition bigint_overflow :: "js_number \<Rightarrow> bool" where
  \<comment> \<open>a number beyond the 64-bit integers that \<open>LIMIT\<close> and \<open>OFFSET\<close> take\<close>
  "bigint_overflow x = (case x of Num k \<Rightarrow> 2 ^ 63 \<le> k | _ \<Rightarrow> False)"

definition limit_offset ::
  "drivers \<Rightarrow> js_number \<Rightarrow> js_number \<Rightarrow> product list \<Rightarrow> js_error + product list" where
  "limit_offset ds offset limit rows =
     (if bigint_overflow offset \<or> bigint_overflow limit
      then Inl (DatabaseError (pg_says ds (Bigint_out_of_range offset limit)))
      else skip_limit (pg_window ds) offset limit rows)"

definition getAllProducts ::
  "drivers \<Rightarrow> js_number \<Rightarrow> js_number \<Rightarrow> product_filter \<Rightarrow> product list
     \<Rightarrow> js_error + (product list \<times> pagination)" where
  "getAllProducts ds page limit flt db =
     (let offset = js_times (js_minus_one page) limit in
      case product_where ds flt of
        Inl e \<Rightarrow> Inl e
      | Inr m \<Rightarrow>
          (case limit_offset ds offset limit (newest_first p_createdAt (filter m db)) of
             Inl e \<Rightarrow> Inl e
           | Inr rows \<Rightarrow>
               Inr (rows, \<lparr>pn_total = length (filter m db), pn_page = page, pn_limit = limit,
                           pn_pages = math_ceil_div (length (filter m db)) limit\<rparr>)))"

definition findByPk :: "drivers \<Rightarrow> string \<Rightarrow> product list \<Rightarrow> js_error + product option" where
  \<comment> \<open>\<open>Product.findByPk(id)\<close>: the id is compared with the \<open>UUID\<close> column, so it is read as
      a uuid first\<close>
  "findByPk ds pid db =
     (case uuid pid of
        None \<Rightarrow> Inl (DatabaseError (pg_says ds (Invalid_uuid pid)))
      | Some v \<Rightarrow> Inr (find (\<lambda>p. uuid (p_id p) = Some v) db))"

record product_model =
  msg_notEmpty :: string
  msg_len :: string
  msg_price_min :: string
  msg_isDecimal :: "string option"
  msg_quantity_min :: string
  msg_isInt :: "string option"

definition Product_ts :: product_model where
  \<comment> \<open>the validators of the TypeScript model, with their messages\<close>
  "Product_ts =
     \<lparr>msg_notEmpty = ''Name cannot be empty'',
      msg_len = ''Name must be between 1 and 255 characters'',
      msg_price_min = ''Price cannot be negative'',
      msg_isDecimal = Some ''Price must be a valid decimal number'',
      msg_quantity_min = ''Quantity cannot be negative'',
      msg_isInt = Some ''Quantity must be an integer''\<rparr>"

definition Product_js :: product_model where
  \<comment> \<open>the JavaScript model has neither \<open>isDecimal\<close> nor \<open>isInt\<close> and names no messages: the
      validators' default ones\<close>
  "Product_js =
     \<lparr>msg_notEmpty = ''Validation notEmpty on name failed'',
      msg_len = ''Validation len on name failed'',
      msg_price_min = ''Validation min on price failed'',
      msg_isDecimal = None,
      msg_quantity_min = ''Validation min on quantity failed'',
      msg_isInt = None\<rparr>"

definition validate_product_update :: "product_model \<Rightarrow> product_update \<Rightarrow> error_item list" where
  \<comment> \<open>the model's \<open>validate\<close> entries on the attributes that the update sets, in the order
      of the attributes of the model; one error for each validator that fails. A number
      is validated through its text: \<open>isDecimal\<close> and \<open>isInt\<close> fail on the exponent notation,
      which JavaScript uses below \<open>10^-6\<close> and from \<open>10^21\<close>.\<close>
  "validate_product_update m d =
     (case pu_name d of
        None \<Rightarrow> []
      | Some n \<Rightarrow>
          (if strip white_space n = []
           then [\<lparr>item_path = Some ''name'', item_message = msg_notEmpty m\<rparr>] else []) @
          (if characters n < 1 \<or> 255 < characters n
           then [\<lparr>item_path = Some ''name'', item_message = msg_len m\<rparr>] else [])) @
     (case pu_price d of
        None \<Rightarrow> []
      | Some x \<Rightarrow>
          (if x < 0 then [\<lparr>item_path = Some ''price'', item_message = msg_price_min m\<rparr>]
           else []) @
          (case msg_isDecimal m of
             None \<Rightarrow> []
           | Some msg \<Rightarrow>
               if x \<noteq> 0 \<and> (\<bar>x\<bar> < 1 / 10 ^ 6 \<or> 10 ^ 21 \<le> \<bar>x\<bar>)
               then [\<lparr>item_path = Some ''price'', item_message = msg\<rparr>] else [])) @
     (case pu_quantity d of
        None \<Rightarrow> []
      | Some k \<Rightarrow>
          (if k < 0 then [\<lparr>item_path = Some ''quantity'', item_message = msg_quantity_min m\<rparr>]
           else []) @
          (case msg_isInt m of
             None \<Rightarrow> []
           | Some msg \<Rightarrow>
               if 10 ^ 21 \<le> \<bar>k\<bar>
               then [\<lparr>item_path = Some ''quantity'', item_message = msg\<rparr>] else []))"

definition SequelizeValidationError :: "error_item list \<Rightarrow> js_error" where
  "SequelizeValidationError items =
     \<lparr>err_name = ''SequelizeValidationError'', err_message = ''Validation error'',
      err_statusCode = None, err_code = None, err_keyPattern = None,
      err_errors = Some items, err_stack = None\<rparr>"

definition set_product :: "nat \<Rightarrow> product_update \<Rightarrow> product \<Rightarrow> product" where
  \<comment> \<open>the instance after \<open>set(values)\<close>, with the time of the update\<close>
  "set_product now d p =
     p\<lparr>p_name := (case pu_name d of None \<Rightarrow> p_name p | Some n \<Rightarrow> n),
       p_description := (case pu_description d of None \<Rightarrow> p_description p | Some x \<Rightarrow> Some x),
       p_price := (case pu_price d of None \<Rightarrow> p_price p | Some x \<Rightarrow> x),
       p_quantity := (case pu_quantity d of None \<Rightarrow> p_quantity p | Some k \<Rightarrow> k),
       p_category := (case pu_category d of None \<Rightarrow> p_category p | Some c \<Rightarrow> Some c),
       p_status := (case pu_status d of None \<Rightarrow> p_status p | Some s \<Rightarrow> s),
       p_updatedAt := now\<rparr>"

definition provided :: "product_update \<Rightarrow> bool" where
  \<comment> \<open>the update names at least one attribute\<close>
  "provided d =
     (pu_name d \<noteq> None \<or> pu_description d \<noteq> None \<or> pu_price d \<noteq> None \<or>
      pu_quantity d \<noteq> None \<or> pu_category d \<noteq> None \<or> pu_status d \<noteq> None)"

definition changed :: "product \<Rightarrow> product_update \<Rightarrow> bool" where
  \<comment> \<open>some value of the update differs from the one that the instance was loaded with. A
      price always does: the instance holds the text of the \<open>DECIMAL\<close>, the update a number.\<close>
  "changed p d =
     ((case pu_name d of None \<Rightarrow> False | Some n \<Rightarrow> n \<noteq> p_name p) \<or>
      (case pu_description d of None \<Rightarrow> False | Some x \<Rightarrow> Some x \<noteq> p_description p) \<or>
      pu_price d \<noteq> None \<or>
      (case pu_quantity d of None \<Rightarrow> False | Some k \<Rightarrow> k \<noteq> p_quantity p) \<or>
      (case pu_category d of None \<Rightarrow> False | Some c \<Rightarrow> Some c \<noteq> p_category p) \<or>
      (case pu_status d of None \<Rightarrow> False | Some s \<Rightarrow> s \<noteq> p_status p))"

definition storable :: "product_update \<Rightarrow> bool" where
  \<comment> \<open>the texts of the update are ones that the columns take as they are\<close>
  "storable d =
     ((case pu_name d of None \<Rightarrow> True | Some n \<Rightarrow> CHR 0x00 \<notin> set n) \<and>
      (case pu_description d of None \<Rightarrow> True | Some x \<Rightarrow> CHR 0x00 \<notin> set x) \<and>
      (case pu_category d of
         None \<Rightarrow> True
       | Some c \<Rightarrow> CHR 0x00 \<notin> set c \<and> characters c \<le> 100))"

definition round2 :: "rat \<Rightarrow> rat" where
  \<comment> \<open>what a \<open>DECIMAL(10,2)\<close> column keeps of a number: two decimals, a half rounded away
      from zero\<close>
  "round2 x =
     (if 0 \<le> x then of_int \<lfloor>x * 100 + 1 / 2\<rfloor> / 100
      else - (of_int \<lfloor>- x * 100 + 1 / 2\<rfloor> / 100))"

definition in_range :: "product_update \<Rightarrow> bool" where
  \<comment> \<open>the numbers of the update fit their columns: \<open>INTEGER\<close> and \<open>DECIMAL(10,2)\<close>\<close>
  "in_range d =
     ((case pu_quantity d of None \<Rightarrow> True | Some k \<Rightarrow> - 2147483648 \<le> k \<and> k \<le> 2147483647) \<and>
      (case pu_price d of None \<Rightarrow> True | Some x \<Rightarrow> \<bar>round2 x\<bar> < 10 ^ 8))"

definition stored :: "nat \<Rightarrow> product_update \<Rightarrow> product \<Rightarrow> product" where
  \<comment> \<open>the row as the table keeps it\<close>
  "stored now d p =
     (set_product now d p)
       \<lparr>p_price := (case pu_price d of None \<Rightarrow> p_price p | Some x \<Rightarrow> round2 x)\<rparr>"

definition instance_update ::
  "drivers \<Rightarrow> product_model \<Rightarrow> nat \<Rightarrow> product \<Rightarrow> product_update \<Rightarrow> product list
     \<Rightarrow> (js_error + product option) \<times> product list" where
  \<comment> \<open>\<open>product.update(values)\<close> on an instance that \<open>findByPk\<close> returned. The values are set
      on the instance and validated. Without a value that differs from the loaded one no
      statement is sent: the table stays as it is, and the instance carries the new
      \<open>updatedAt\<close> only in memory. Otherwise the named attributes and \<open>updatedAt\<close> are
      written; the instance that is returned keeps the values as they were given.\<close>
  "instance_update ds m now p d db =
     (if validate_product_update m d \<noteq> [] then
        (Inl (SequelizeValidationError (validate_product_update m d)), db)
      else if \<not> provided d then (Inr (Some p), db)
      else if \<not> changed p d then (Inr (Some (p\<lparr>p_updatedAt := now\<rparr>)), db)
      else if \<not> storable d then pg_other ds p d db
      else if \<not> in_range d then (Inl (DatabaseError (pg_says ds (Value_out_of_range d))), db)
      else
        (let others = delete_first (\<lambda>v. uuid (p_id v) = uuid (p_id p)) db;
             row = stored now d p
         in (Inr (Some (set_product now d p)), insert_at (pg_slot ds row others) row others)))"

definition updateProduct ::
  "drivers \<Rightarrow> nat \<Rightarrow> string \<Rightarrow> product_update \<Rightarrow> product list
     \<Rightarrow> (js_error + product option) \<times> product list" where
  "updateProduct ds now pid updateData db =
     (case findByPk ds pid db of
        Inl e \<Rightarrow> (Inl e, db)
      | Inr None \<Rightarrow> (Inr None, db)
      | Inr (Some product) \<Rightarrow> instance_update ds Product_ts now product updateData db)"

definition deleteProduct ::
  "drivers \<Rightarrow> string \<Rightarrow> product list \<Rightarrow> (js_error + product option) \<times> product list" where
  "deleteProduct ds pid db =
     (case findByPk ds pid db of
        Inl e \<Rightarrow> (Inl e, db)
      | Inr None \<Rightarrow> (Inr None, db)
      | Inr (Some product) \<Rightarrow>
          (Inr (Some product), delete_first (\<lambda>v. uuid (p_id v) = uuid (p_id product)) db))"

definition searchProducts :: "string \<Rightarrow> product list \<Rightarrow> product list" where
  \<comment> \<open>\<open>name ILIKE '%query%' OR description ILIKE '%query%'\<close>, \<open>LIMIT 50\<close>; a null
      description matches nothing\<close>
  "searchProducts query db =
     take 50
       (filter (\<lambda>p. iLike (''%'' @ query @ ''%'') (p_name p) \<or>
                     (case p_description p of
                        None \<Rightarrow> False
                      | Some x \<Rightarrow> iLike (''%'' @ query @ ''%'') x)) db)"

definition getProductStats :: "product list \<Rightarrow> product_stats list" where
  \<comment> \<open>\<open>SELECT category, COUNT(id), AVG(price), SUM(quantity) ... GROUP BY category\<close>\<close>
  "getProductStats db =
     map (\<lambda>c. \<lparr>ps_category = c,
               ps_count = length (filter (\<lambda>p. p_category p = c) db),
               ps_avgPrice =
                 sum_list (map p_price (filter (\<lambda>p. p_category p = c) db)) /
                 of_nat (length (filter (\<lambda>p. p_category p = c) db)),
               ps_totalQuantity = sum_list (map p_quantity (filter (\<lambda>p. p_category p = c) db))\<rparr>)
       (remdups (map p_category db))"

definition updateStock ::
  "drivers \<Rightarrow> nat \<Rightarrow> string \<Rightarrow> int \<Rightarrow> product list
     \<Rightarrow> (js_error + product option) \<times> product list" where
  \<comment> \<open>only the JavaScript service has it; it works on the JavaScript model\<close>
  "updateStock ds now pid quantity db =
     (case findByPk ds pid db of
        Inl e \<Rightarrow> (Inl e, db)
      | Inr None \<Rightarrow> (Inr None, db)
      | Inr (Some product) \<Rightarrow>
          (let newQuantity = p_quantity product + quantity;
               newStatus = (if newQuantity > 0 then Available else Out_of_stock)
           in instance_update ds Product_js now product
                \<lparr>pu_name = None, pu_description = None, pu_price = None,
                 pu_quantity = Some newQuantity, pu_category = None,
                 pu_status = Some newStatus\<rparr> db))"

section \<open>Controllers: query parsing\<close>

text \<open>
  The list controllers read \<open>page\<close>, \<open>limit\<close> and the filter values from the parsed query
  string, whatever the shape of the values. The search controllers are modelled on the
  requests whose parameters are strings: a map from parameter names to strings.
\<close>

type_synonym query = "string \<rightharpoonup> string"



definition or_empty :: "string option \<Rightarrow> string" where
  \<comment> \<open>\<open>req.query.q || ''\<close>\<close>
  "or_empty v = (case v of None \<Rightarrow> [] | Some s \<Rightarrow> s)"

definition forward ::
  "string option \<Rightarrow> (js_error + 'a) \<Rightarrow> ('a \<Rightarrow> response) \<Rightarrow> js_exception + response" where
  \<comment> \<open>\<open>try { ... res.json(...) } catch (error) { next(error) }\<close>: an error of the service
      goes to the error handler\<close>
  "forward env r respond = (case r of Inl e \<Rightarrow> errorHandler env e | Inr x \<Rightarrow> Inr (respond x))"

section \<open>MongoController\<close>


definition MongoController_updateUser ::
  "drivers \<Rightarrow> string option \<Rightarrow> nat \<Rightarrow> string \<Rightarrow> user_field list \<Rightarrow> user list
     \<Rightarrow> (js_exception + response) \<times> user list" where
  "MongoController_updateUser ds env now uid body db =
     (forward env (fst (updateUser ds now uid body db))
        (\<lambda>user. case user of
                   None \<Rightarrow> (reply 404 False)\<lparr>res_error := Some ''User not found''\<rparr>
                 | Some u \<Rightarrow> (reply 200 True)\<lparr>res_data := Some (OneUser u)\<rparr>),
      snd (updateUser ds now uid body db))"

definition MongoController_deleteUser ::
  "drivers \<Rightarrow> string option \<Rightarrow> string \<Rightarrow> user list \<Rightarrow> (js_exception + response) \<times> user list" where
  "MongoController_deleteUser ds env uid db =
     (forward env (fst (deleteUser ds uid db))
        (\<lambda>user. case user of
                   None \<Rightarrow> (reply 404 False)\<lparr>res_error := Some ''User not found''\<rparr>
                 | Some u \<Rightarrow>
                     (reply 200 True)\<lparr>res_data := Some (OneUser u),
                                       res_message := Some ''User deleted successfully''\<rparr>),
      snd (deleteUser ds uid db))"


subsection \<open>The JavaScript controller, where it differs\<close>

definition MongoController_deleteUser_js ::
  "drivers \<Rightarrow> string option \<Rightarrow> string \<Rightarrow> user list \<Rightarrow> (js_exception + response) \<times> user list" where
  "MongoController_deleteUser_js ds env uid db =
     (forward env (fst (deleteUser ds uid db))
        (\<lambda>user. case user of
                   None \<Rightarrow> (reply 404 False)\<lparr>res_message := Some ''User not found''\<rparr>
                 | Some u \<Rightarrow>
                     (reply 200 True)\<lparr>res_message := Some ''User deleted successfully''\<rparr>),
      snd (deleteUser ds uid db))"

definition MongoController_searchUsers_js ::
  "(string \<Rightarrow> js_error + (string \<Rightarrow> bool)) \<Rightarrow> string option \<Rightarrow> query \<Rightarrow> user list
     \<Rightarrow> js_exception + response" where
  "MongoController_searchUsers_js engine env q db =
     (let query = or_empty (q ''q'') in
      forward env (searchUsers engine query db)
        (\<lambda>users. (reply 200 True)\<lparr>res_count := Some (length users),
                                    res_data := Some (Users users)\<rparr>))"

section \<open>PostgresController\<close>


definition PostgresController_updateProduct ::
  "drivers \<Rightarrow> string option \<Rightarrow> nat \<Rightarrow> string \<Rightarrow> product_update \<Rightarrow> product list
     \<Rightarrow> (js_exception + response) \<times> product list" where
  "PostgresController_updateProduct ds env now pid body db =
     (forward env (fst (updateProduct ds now pid body db))
        (\<lambda>product. case product of
                      None \<Rightarrow> (reply 404 False)\<lparr>res_error := Some ''Product not found''\<rparr>
                    | Some p \<Rightarrow> (reply 200 True)\<lparr>res_data := Some (OneProduct p)\<rparr>),
      snd (updateProduct ds now pid body db))"

definition PostgresController_deleteProduct ::
  "drivers \<Rightarrow> string option \<Rightarrow> string \<Rightarrow> product list
     \<Rightarrow> (js_exception + response) \<times> product list" where
  "PostgresController_deleteProduct ds env pid db =
     (forward env (fst (deleteProduct ds pid db))
        (\<lambda>product. case product of
                      None \<Rightarrow> (reply 404 False)\<lparr>res_error := Some ''Product not found''\<rparr>
                    | Some p \<Rightarrow>
                        (reply 200 True)\<lparr>res_data := Some (OneProduct p),
                                          res_message := Some ''Product deleted successfully''\<rparr>),
      snd (deleteProduct ds pid db))"


subsection \<open>The JavaScript controller, where it differs\<close>

definition PostgresController_deleteProduct_js ::
  "drivers \<Rightarrow> string option \<Rightarrow> string \<Rightarrow> product list
     \<Rightarrow> (js_exception + response) \<times> product list" where
  "PostgresController_deleteProduct_js ds env pid db =
     (forward env (fst (deleteProduct ds pid db))
        (\<lambda>product. case product of
                      None \<Rightarrow> (reply 404 False)\<lparr>res_message := Some ''Product not found''\<rparr>
                    | Some p \<Rightarrow>
                        (reply 200 True)\<lparr>res_message := Some ''Product deleted successfully''\<rparr>),
      snd (deleteProduct ds pid db))"

definition PostgresController_searchProducts_js :: "query \<Rightarrow> product list \<Rightarrow> response" where
  "PostgresController_searchProducts_js q db =
     (let query = or_empty (q ''q'');
          products = searchProducts query db
      in (reply 200 True)\<lparr>res_count := Some (length products),
                           res_data := Some (Products products)\<rparr>)"

definition status_of :: "js_exception + response \<Rightarrow> nat option" where
  \<comment> \<open>the HTTP status of the answer, when there is one\<close>
  "status_of r = (case r of Inl x \<Rightarrow> None | Inr a \<Rightarrow> Some (res_status a))"

section \<open>Sample data\<close>

text \<open>Records and parameters on which the theorems below are run.\<close>

definition ann :: user where
  "ann = \<lparr>u_id = ''65f000000000000000000001'', u_name = ''Ann'', u_email = ''ann@test.com'',
           u_age = Some 30, u_status = Active, u_metadata = ''{}'', u_createdAt = 100,
           u_updatedAt = 100\<rparr>"

definition bob :: user where
  "bob = \<lparr>u_id = ''65f000000000000000000002'', u_name = ''Bob'', u_email = ''bob@test.com'',
           u_age = None, u_status = Active, u_metadata = ''{}'', u_createdAt = 300,
           u_updatedAt = 300\<rparr>"

definition cy :: user where
  "cy = \<lparr>u_id = ''65f000000000000000000003'', u_name = ''Cy'', u_email = ''cy@test.com'',
          u_age = Some 41, u_status = Pending, u_metadata = ''{}'', u_createdAt = 200,
          u_updatedAt = 200\<rparr>"

definition widget :: product where
  "widget = \<lparr>p_id = ''0a000000-0000-4000-8000-000000000001'', p_name = ''Widget'',
              p_description = Some ''A small tool'', p_price = 999 / 100, p_quantity = 5,
              p_category = Some ''Tools'', p_status = Available, p_createdAt = 100,
              p_updatedAt = 100\<rparr>"

definition hammer :: product where
  "hammer = \<lparr>p_id = ''0a000000-0000-4000-8000-000000000002'', p_name = ''Hammer'',
              p_description = None, p_price = 20, p_quantity = 0,
              p_category = Some ''Tools'', p_status = Out_of_stock, p_createdAt = 300,
              p_updatedAt = 300\<rparr>"

definition pear :: product where
  "pear = \<lparr>p_id = ''0a000000-0000-4000-8000-000000000003'', p_name = ''Pear'',
            p_description = Some ''Fresh fruit'', p_price = 1 / 2, p_quantity = 40,
            p_category = None, p_status = Available, p_createdAt = 200,
            p_updatedAt = 200\<rparr>"

definition no_engine :: "string \<Rightarrow> js_error + (string \<Rightarrow> bool)" where
  \<comment> \<open>a regular expression engine that compiles no pattern with metacharacters\<close>
  "no_engine pat =
     Inl \<lparr>err_name = ''MongoServerError'', err_message = ''Regular expression is invalid'',
          err_statusCode = None, err_code = Some 51091, err_keyPattern = None, err_errors = None,
          err_stack = None\<rparr>"

definition refusal :: js_error where
  "refusal =
     \<lparr>err_name = ''Error'', err_message = ''not supported'', err_statusCode = None,
      err_code = None, err_keyPattern = None, err_errors = None, err_stack = None\<rparr>"

fun says :: "fault \<Rightarrow> string \<times> string option" where
  "says (Invalid_uuid s) = (''invalid input syntax for type uuid'', Some ''at Query.run'')"
| "says (Invalid_enum s) =
     (''invalid input value for enum enum_products_status'', Some ''at Query.run'')"
| "says (Bigint_out_of_range offset limit) = (''bigint out of range'', Some ''at Query.run'')"
| "says (Value_out_of_range d) = (''value out of range'', Some ''at Query.run'')"

definition plain :: drivers where
  \<comment> \<open>drivers that refuse what the model leaves to them, a table that puts an updated row
      last\<close>
  "plain =
     \<lparr>unicode_lower = (\<lambda>s. s),
      cast12 = (\<lambda>s. None),
      mongo_window = (\<lambda>skip limit xs. Inl refusal),
      mongo_operator = (\<lambda>v. Inl refusal),
      pg_window = (\<lambda>offset limit xs. Inl refusal),
      pg_operator = (\<lambda>category status. Inl refusal),
      pg_says = says,
      pg_slot = (\<lambda>row others. length others),
      pg_other = (\<lambda>p d db. (Inl refusal, db))\<rparr>"

section \<open>Properties of the parser\<close>

declare decimal.simps [simp del]













lemma round_double_exact: "m < 2 ^ 53 \<Longrightarrow> round_double m = m"
  by (simp add: round_double_def)

lemma to_number_exact: "\<bar>k\<bar> < 2 ^ 53 \<Longrightarrow> to_number k = Num k"
proof -
  assume a: "\<bar>k\<bar> < 2 ^ 53"
  have "nat \<bar>k\<bar> < nat (2 ^ 53)" using a by (simp only: nat_mono_iff)
  then have b: "nat \<bar>k\<bar> < 2 ^ 53" by simp
  have c: "(2::nat) ^ 53 \<le> 2 ^ 1024" by (rule power_increasing) simp_all
  have d: "\<not> (2::nat) ^ 1024 \<le> nat \<bar>k\<bar>" using b c by (simp only: not_le)
  show ?thesis
    unfolding to_number_def Let_def round_double_exact [OF b] using d by auto
qed




lemma to_number_safe: "\<bar>k\<bar> \<le> MAX_SAFE_INTEGER \<Longrightarrow> to_number k = Num k"
  by (rule to_number_exact) (simp add: MAX_SAFE_INTEGER_def)



section \<open>Slices of a sorted list\<close>

lemma newest_first_mset: "mset (newest_first c xs) = mset xs"
  by (simp add: newest_first_def)

lemma newest_first_sorted: "sorted_wrt (\<lambda>a b. c b \<le> c a) (newest_first c xs)"
proof -
  have "sorted (map (\<lambda>x. - int (c x)) (newest_first c xs))"
    unfolding newest_first_def by (rule sorted_sort_key)
  then show ?thesis by (simp add: sorted_map)
qed

lemma math_ceil_div_Num:
  "l \<noteq> 0 \<Longrightarrow> math_ceil_div n (Num l) = Num \<lceil>(of_nat n :: rat) / of_int l\<rceil>"
  by (simp add: math_ceil_div_def)

lemma skip_limit_slice:
  assumes "0 \<le> s" "s \<le> MAX_SAFE_INTEGER" "1 \<le> l" "l \<le> MAX_SAFE_INTEGER"
  shows "skip_limit w (Num s) (Num l) xs = Inr (take (nat l) (drop (nat s) xs))"
  using assms by (simp add: skip_limit_def)


lemma offset_exact:
  assumes "\<bar>page - 1\<bar> \<le> MAX_SAFE_INTEGER" "\<bar>(page - 1) * limit\<bar> \<le> MAX_SAFE_INTEGER"
  shows "js_times (js_minus_one (Num page)) (Num limit) = Num ((page - 1) * limit)"
  using assms by (simp add: js_times_def js_minus_one_def to_number_safe)

lemma getAllUsers_in_range:
  assumes "1 \<le> page" and "1 \<le> limit" and "limit \<le> MAX_SAFE_INTEGER"
    and "(page - 1) * limit \<le> MAX_SAFE_INTEGER" and "user_matches ds flt = Inr m"
  shows "getAllUsers ds (Num page) (Num limit) flt db =
       Inr (take (nat limit) (drop (nat ((page - 1) * limit))
              (newest_first u_createdAt (filter m db))),
            \<lparr>pn_total = length (filter m db), pn_page = Num page, pn_limit = Num limit,
             pn_pages = Num \<lceil>(of_nat (length (filter m db)) :: rat) / of_int limit\<rceil>\<rparr>)"
proof -
  have nn: "0 \<le> (page - 1) * limit" using assms(1,2) by simp
  have "page - 1 \<le> (page - 1) * limit" using assms(1,2) by (simp add: mult_le_cancel_left1)
  then have p: "\<bar>page - 1\<bar> \<le> MAX_SAFE_INTEGER" using assms(1,4) by linarith
  have o: "js_times (js_minus_one (Num page)) (Num limit) = Num ((page - 1) * limit)"
    using offset_exact [OF p] nn assms(4) by simp
  have l: "limit \<noteq> 0" using assms(2) by simp
  show ?thesis
    by (simp add: getAllUsers_def o assms(5) skip_limit_slice [OF nn assms(4) assms(2,3)]
        math_ceil_div_Num [OF l])
qed

lemma bigint_safe: "k \<le> MAX_SAFE_INTEGER \<Longrightarrow> \<not> bigint_overflow (Num k)"
  by (simp add: bigint_overflow_def MAX_SAFE_INTEGER_def)

lemma getAllProducts_in_range:
  assumes "1 \<le> page" and "1 \<le> limit" and "limit \<le> MAX_SAFE_INTEGER"
    and "(page - 1) * limit \<le> MAX_SAFE_INTEGER" and "product_where ds flt = Inr m"
  shows "getAllProducts ds (Num page) (Num limit) flt db =
       Inr (take (nat limit) (drop (nat ((page - 1) * limit))
              (newest_first p_createdAt (filter m db))),
            \<lparr>pn_total = length (filter m db), pn_page = Num page, pn_limit = Num limit,
             pn_pages = Num \<lceil>(of_nat (length (filter m db)) :: rat) / of_int limit\<rceil>\<rparr>)"
proof -
  have nn: "0 \<le> (page - 1) * limit" using assms(1,2) by simp
  have "page - 1 \<le> (page - 1) * limit" using assms(1,2) by (simp add: mult_le_cancel_left1)
  then have p: "\<bar>page - 1\<bar> \<le> MAX_SAFE_INTEGER" using assms(1,4) by linarith
  have o: "js_times (js_minus_one (Num page)) (Num limit) = Num ((page - 1) * limit)"
    using offset_exact [OF p] nn assms(4) by simp
  have l: "limit \<noteq> 0" using assms(2) by simp
  show ?thesis
    by (simp add: getAllProducts_def o assms(5) limit_offset_def bigint_safe [OF assms(3)]
        bigint_safe [OF assms(4)] skip_limit_slice [OF nn assms(4) assms(2,3)]
        math_ceil_div_Num [OF l])
qed





section \<open>The health endpoint answers whatever the datastores do\<close>

text \<open>
  C8. \<open>GET /health\<close> answers 200 with the body \<open>{status, timestamp, uptime}\<close>, and the answer
  is the same for every content of the two datastores and whether or not they are connected:
  the handler reads the clock and the process uptime only.
\<close>

theorem health_always_200:
  "fst (health w) = 200 \<and>
   snd (health w) = \<lparr>h_status = ''healthy'', h_timestamp = w_now w, h_uptime = w_uptime w\<rparr> \<and>
   health (w\<lparr>w_users := us, w_products := ps, w_mongo_connected := mc, w_pg_connected := pc\<rparr>)
     = health w"
  by (simp add: health_def)

section \<open>The error handler\<close>

text \<open>
  C6, as the code has it. A validation error (Mongoose's or Sequelize's) is answered with 400
  and the message of every entry of its error list. A duplicate key error is answered with
  400 and the first key of its key pattern; a Sequelize unique constraint error with 400 and
  the path of its first entry. An error that no typed branch takes is answered with its own
  \<open>statusCode\<close> when it has one and with 500 otherwise, and with its own message; the
  generic message stands in only for an empty one. The stack is part of the answer in
  development mode only, hence never in production.
\<close>

theorem errorHandler_taxonomy:
  "(err_name v = ''ValidationError'' \<and> err_errors v = Some es \<longrightarrow>
      errorHandler env v =
        Inr ((reply 400 False)\<lparr>res_message := Some ''Validation Error'',
                                 res_errors := Some (map item_message es)\<rparr>)) \<and>
   (err_name s = ''SequelizeValidationError'' \<and> err_code s \<noteq> Some 11000 \<and>
    err_errors s = Some es' \<longrightarrow>
      errorHandler env s =
        Inr ((reply 400 False)\<lparr>res_message := Some ''Validation Error'',
                                 res_errors := Some (map item_message es')\<rparr>)) \<and>
   (err_code d = Some 11000 \<and> err_name d \<noteq> ''ValidationError'' \<and> err_name d \<noteq> ''CastError'' \<and>
    err_keyPattern d = Some (k # ks) \<longrightarrow>
      errorHandler env d =
        Inr ((reply 400 False)\<lparr>res_message := Some (k @ '' already exists'')\<rparr>)) \<and>
   (err_name u = ''SequelizeUniqueConstraintError'' \<and> err_code u \<noteq> Some 11000 \<and>
    err_errors u = Some (i # is) \<longrightarrow>
      errorHandler env u =
        Inr ((reply 400 False)\<lparr>res_message := Some ''Duplicate entry'',
                                 res_field := item_path i\<rparr>)) \<and>
   (unclassified x \<longrightarrow>
      errorHandler env x =
        Inr ((reply (case err_statusCode x of None \<Rightarrow> 500 | Some c \<Rightarrow> if c = 0 then 500 else c)
                False)
               \<lparr>res_message := Some (if err_message x = [] then ''Internal Server Error''
                                      else err_message x),
                res_stack := (if isDevelopment env then err_stack x else None)\<rparr>) \<and>
      (isProduction env \<longrightarrow> \<not> isDevelopment env))"
  by (auto simp: errorHandler_def unclassified_def isProduction_def isDevelopment_def Let_def)

theorem errorHandler_taxonomy_witness:
  "errorHandler (Some ''production'')
     \<lparr>err_name = ''ValidationError'', err_message = ''User validation failed'',
      err_statusCode = None, err_code = None, err_keyPattern = None,
      err_errors = Some [\<lparr>item_path = Some ''name'', item_message = ''Name is required''\<rparr>,
                         \<lparr>item_path = Some ''age'', item_message = ''Age cannot be negative''\<rparr>],
      err_stack = None\<rparr>
     = Inr ((reply 400 False)\<lparr>res_message := Some ''Validation Error'',
              res_errors := Some [''Name is required'', ''Age cannot be negative'']\<rparr>) \<and>
   errorHandler (Some ''production'')
     \<lparr>err_name = ''SequelizeValidationError'', err_message = ''Validation error'',
      err_statusCode = None, err_code = None, err_keyPattern = None,
      err_errors = Some [\<lparr>item_path = Some ''price'', item_message = ''Price cannot be negative''\<rparr>],
      err_stack = None\<rparr>
     = Inr ((reply 400 False)\<lparr>res_message := Some ''Validation Error'',
              res_errors := Some [''Price cannot be negative'']\<rparr>) \<and>
   errorHandler (Some ''production'')
     \<lparr>err_name = ''MongoServerError'', err_message = ''E11000 duplicate key error'',
      err_statusCode = None, err_code = Some 11000, err_keyPattern = Some [''email''],
      err_errors = None, err_stack = None\<rparr>
     = Inr ((reply 400 False)\<lparr>res_message := Some ''email already exists''\<rparr>) \<and>
   errorHandler (Some ''production'')
     \<lparr>err_name = ''SequelizeUniqueConstraintError'', err_message = ''Validation error'',
      err_statusCode = None, err_code = None, err_keyPattern = None,
      err_errors = Some [\<lparr>item_path = Some ''name'', item_message = ''name must be unique''\<rparr>],
      err_stack = None\<rparr>
     = Inr ((reply 400 False)\<lparr>res_message := Some ''Duplicate entry'',
              res_field := Some ''name''\<rparr>) \<and>
   unclassified
     \<lparr>err_name = ''Error'', err_message = [], err_statusCode = None, err_code = None,
      err_keyPattern = None, err_errors = None, err_stack = Some ''at handler''\<rparr> \<and>
   errorHandler (Some ''production'')
     \<lparr>err_name = ''Error'', err_message = [], err_statusCode = None, err_code = None,
      err_keyPattern = None, err_errors = None, err_stack = Some ''at handler''\<rparr>
     = Inr ((reply 500 False)\<lparr>res_message := Some ''Internal Server Error''\<rparr>) \<and>
   isProduction (Some ''production'') \<and> \<not> isDevelopment (Some ''production'')"
  using errorHandler_taxonomy
    [of "\<lparr>err_name = ''ValidationError'', err_message = ''User validation failed'',
      err_statusCode = None, err_code = None, err_keyPattern = None,
      err_errors = Some [\<lparr>item_path = Some ''name'', item_message = ''Name is required''\<rparr>,
                         \<lparr>item_path = Some ''age'', item_message = ''Age cannot be negative''\<rparr>],
      err_stack = None\<rparr>"
        "[\<lparr>item_path = Some ''name'', item_message = ''Name is required''\<rparr>,
          \<lparr>item_path = Some ''age'', item_message = ''Age cannot be negative''\<rparr>]"
        "Some ''production''"
        "\<lparr>err_name = ''SequelizeValidationError'', err_message = ''Validation error'',
      err_statusCode = None, err_code = None, err_keyPattern = None,
      err_errors = Some [\<lparr>item_path = Some ''price'', item_message = ''Price cannot be negative''\<rparr>],
      err_stack = None\<rparr>"
        "[\<lparr>item_path = Some ''price'', item_message = ''Price cannot be negative''\<rparr>]"
        "\<lparr>err_name = ''MongoServerError'', err_message = ''E11000 duplicate key error'',
      err_statusCode = None, err_code = Some 11000, err_keyPattern = Some [''email''],
      err_errors = None, err_stack = None\<rparr>"
        "''email''" "[]"
        "\<lparr>err_name = ''SequelizeUniqueConstraintError'', err_message = ''Validation error'',
      err_statusCode = None, err_code = None, err_keyPattern = None,
      err_errors = Some [\<lparr>item_path = Some ''name'', item_message = ''name must be unique''\<rparr>],
      err_stack = None\<rparr>"
        "\<lparr>item_path = Some ''name'', item_message = ''name must be unique''\<rparr>" "[]"
        "\<lparr>err_name = ''Error'', err_message = [], err_statusCode = None, err_code = None,
      err_keyPattern = None, err_errors = None, err_stack = Some ''at handler''\<rparr>"]
  by (simp add: unclassified_def isProduction_def isDevelopment_def NODE_ENV_def
      validateNodeEnv_def reply_def)

text \<open>
  C6 as stated asks for 500 and only a generic message for every unclassified error. In
  production, a refused database connection is answered with the error's own message, and
  an oversized request body, which carries \<open>statusCode = 413\<close>, with 413.
\<close>

theorem errorHandler_fallback_counterexample:
  "unclassified
     \<lparr>err_name = ''SequelizeConnectionRefusedError'',
      err_message = ''connect ECONNREFUSED 127.0.0.1:5432'',
      err_statusCode = None, err_code = None, err_keyPattern = None, err_errors = None,
      err_stack = Some ''at Client.connect''\<rparr> \<and>
   isProduction (Some ''production'') \<and>
   errorHandler (Some ''production'')
     \<lparr>err_name = ''SequelizeConnectionRefusedError'',
      err_message = ''connect ECONNREFUSED 127.0.0.1:5432'',
      err_statusCode = None, err_code = None, err_keyPattern = None, err_errors = None,
      err_stack = Some ''at Client.connect''\<rparr>
     = Inr ((reply 500 False)\<lparr>res_message := Some ''connect ECONNREFUSED 127.0.0.1:5432''\<rparr>) \<and>
   unclassified
     \<lparr>err_name = ''PayloadTooLargeError'', err_message = ''request entity too large'',
      err_statusCode = Some 413, err_code = None, err_keyPattern = None, err_errors = None,
      err_stack = None\<rparr> \<and>
   errorHandler (Some ''production'')
     \<lparr>err_name = ''PayloadTooLargeError'', err_message = ''request entity too large'',
      err_statusCode = Some 413, err_code = None, err_keyPattern = None, err_errors = None,
      err_stack = None\<rparr>
     = Inr ((reply 413 False)\<lparr>res_message := Some ''request entity too large''\<rparr>)"
  by (simp add: unclassified_def errorHandler_def isProduction_def isDevelopment_def NODE_ENV_def
      validateNodeEnv_def reply_def)

section \<open>Parsing of page and limit\<close>



section \<open>Grouped statistics\<close>

lemma the_values_filter: "the_values xs = map the (filter (\<lambda>x. x \<noteq> None) xs)"
  by (induction xs rule: the_values.induct) simp_all

lemma avg_eq:
  "avg xs = (if xs = [] then None else Some (sum_list xs / of_nat (length xs)))"
  by (cases xs) simp_all

text \<open>
  C5. The statistics have exactly one entry for each value of the grouping field (status
  for users, category for products) that some record has, so a group without records
  has no entry. The entry carries the number of records of its group, which is positive,
  and the measures taken over that group only: the average age over the ages that are
  not null (null when there is none), the average price and the sum of the quantities.
\<close>

theorem grouped_statistics:
  "distinct (map us_id (getUserStats db)) \<and>
   set (map us_id (getUserStats db)) = u_status ` set db \<and>
   (\<forall>g \<in> set (getUserStats db).
      0 < us_count g \<and>
      us_count g = length (filter (\<lambda>u. u_status u = us_id g) db) \<and>
      us_avgAge g =
        (let ages = map the (filter (\<lambda>a. a \<noteq> None)
                      (map u_age (filter (\<lambda>u. u_status u = us_id g) db)))
         in if ages = [] then None else Some (sum_list ages / of_nat (length ages)))) \<and>
   distinct (map ps_category (getProductStats pdb)) \<and>
   set (map ps_category (getProductStats pdb)) = p_category ` set pdb \<and>
   (\<forall>g \<in> set (getProductStats pdb).
      0 < ps_count g \<and>
      ps_count g = length (filter (\<lambda>p. p_category p = ps_category g) pdb) \<and>
      ps_avgPrice g =
        sum_list (map p_price (filter (\<lambda>p. p_category p = ps_category g) pdb)) /
        of_nat (length (filter (\<lambda>p. p_category p = ps_category g) pdb)) \<and>
      ps_totalQuantity g =
        sum_list (map p_quantity (filter (\<lambda>p. p_category p = ps_category g) pdb)))"
proof -
  have uk: "map us_id (getUserStats db) = remdups (map u_status db)"
    by (simp add: getUserStats_def o_def)
  have pk: "map ps_category (getProductStats pdb) = remdups (map p_category pdb)"
    by (simp add: getProductStats_def o_def)
  have pos: "0 < length (filter (\<lambda>u. f u = k) xs)" if "k \<in> f ` set xs" for f :: "'a \<Rightarrow> 'b" and k xs
    using that by (auto simp: filter_empty_conv)
  have ug: "0 < us_count g \<and>
      us_count g = length (filter (\<lambda>u. u_status u = us_id g) db) \<and>
      us_avgAge g =
        (let ages = map the (filter (\<lambda>a. a \<noteq> None)
                      (map u_age (filter (\<lambda>u. u_status u = us_id g) db)))
         in if ages = [] then None else Some (sum_list ages / of_nat (length ages)))"
    if "g \<in> set (getUserStats db)" for g
  proof -
    have "g \<in> (\<lambda>s. \<lparr>us_id = s, us_count = length (filter (\<lambda>u. u_status u = s) db),
               us_avgAge = avg (the_values (map u_age (filter (\<lambda>u. u_status u = s) db)))\<rparr>)
             ` (u_status ` set db)"
      using that by (simp add: getUserStats_def)
    then obtain s where s: "s \<in> u_status ` set db"
      and g: "g = \<lparr>us_id = s, us_count = length (filter (\<lambda>u. u_status u = s) db),
               us_avgAge = avg (the_values (map u_age (filter (\<lambda>u. u_status u = s) db)))\<rparr>"
      by (rule imageE)
    show ?thesis
      using pos [OF s] by (simp add: g avg_eq the_values_filter Let_def)
  qed
  have pg: "0 < ps_count g \<and>
      ps_count g = length (filter (\<lambda>p. p_category p = ps_category g) pdb) \<and>
      ps_avgPrice g =
        sum_list (map p_price (filter (\<lambda>p. p_category p = ps_category g) pdb)) /
        of_nat (length (filter (\<lambda>p. p_category p = ps_category g) pdb)) \<and>
      ps_totalQuantity g =
        sum_list (map p_quantity (filter (\<lambda>p. p_category p = ps_category g) pdb))"
    if "g \<in> set (getProductStats pdb)" for g
  proof -
    have "g \<in> (\<lambda>c. \<lparr>ps_category = c,
               ps_count = length (filter (\<lambda>p. p_category p = c) pdb),
               ps_avgPrice =
                 sum_list (map p_price (filter (\<lambda>p. p_category p = c) pdb)) /
                 of_nat (length (filter (\<lambda>p. p_category p = c) pdb)),
               ps_totalQuantity = sum_list (map p_quantity (filter (\<lambda>p. p_category p = c) pdb))\<rparr>)
             ` (p_category ` set pdb)"
      using that by (simp add: getProductStats_def)
    then obtain c where c: "c \<in> p_category ` set pdb"
      and g: "g = \<lparr>ps_category = c,
               ps_count = length (filter (\<lambda>p. p_category p = c) pdb),
               ps_avgPrice =
                 sum_list (map p_price (filter (\<lambda>p. p_category p = c) pdb)) /
                 of_nat (length (filter (\<lambda>p. p_category p = c) pdb)),
               ps_totalQuantity = sum_list (map p_quantity (filter (\<lambda>p. p_category p = c) pdb))\<rparr>"
      by (rule imageE)
    show ?thesis using pos [OF c] by (simp add: g)
  qed
  have k1: "distinct (map us_id (getUserStats db))" by (simp add: uk)
  have k2: "set (map us_id (getUserStats db)) = u_status ` set db" by (simp add: uk)
  have k3: "distinct (map ps_category (getProductStats pdb))" by (simp add: pk)
  have k4: "set (map ps_category (getProductStats pdb)) = p_category ` set pdb"
    by (simp add: pk)
  show ?thesis
    using ug pg by (intro conjI ballI k1 k2 k3 k4) blast+
qed

theorem grouped_statistics_witness:
  "getUserStats [ann, bob, cy] =
     [\<lparr>us_id = Active, us_count = 2, us_avgAge = Some 30\<rparr>,
      \<lparr>us_id = Pending, us_count = 1, us_avgAge = Some 41\<rparr>] \<and>
   getUserStats [bob] = [\<lparr>us_id = Active, us_count = 1, us_avgAge = None\<rparr>] \<and>
   getProductStats [widget, hammer, pear] =
     [\<lparr>ps_category = Some ''Tools'', ps_count = 2, ps_avgPrice = 2999 / 200,
        ps_totalQuantity = 5\<rparr>,
      \<lparr>ps_category = None, ps_count = 1, ps_avgPrice = 1 / 2, ps_totalQuantity = 40\<rparr>]"
  using grouped_statistics [of "[ann, bob, cy]" "[widget, hammer, pear]"]
    grouped_statistics [of "[bob]" "[]"]
  by (simp add: getUserStats_def getProductStats_def ann_def bob_def cy_def widget_def
      hammer_def pear_def)

section \<open>Keyword search\<close>













text \<open>
  The JavaScript controllers have no guard on the query: an absent query is answered with
  200 and every record.
\<close>

lemma javascript_search_absent_query:
  "PostgresController_searchProducts_js Map.empty [widget, hammer, pear] =
     (reply 200 True)\<lparr>res_count := Some 3,
                        res_data := Some (Products [widget, hammer, pear])\<rparr> \<and>
   MongoController_searchUsers_js no_engine None Map.empty [ann, bob, cy] =
     Inr ((reply 200 True)\<lparr>res_count := Some 3, res_data := Some (Users [ann, bob, cy])\<rparr>)"
  by code_simp

text \<open>
  The JavaScript controllers confirm a delete with a message; the deleted record is not
  part of the answer.
\<close>

lemma javascript_delete_answer:
  "PostgresController_deleteProduct_js plain None ''0a000000-0000-4000-8000-000000000001''
       [widget, hammer] =
     (Inr ((reply 200 True)\<lparr>res_message := Some ''Product deleted successfully''\<rparr>),
      [hammer]) \<and>
   MongoController_deleteUser_js plain None ''65f000000000000000000002'' [ann, bob, cy] =
     (Inr ((reply 200 True)\<lparr>res_message := Some ''User deleted successfully''\<rparr>),
      [ann, cy])"
  by code_simp

end
